theory Spec2Isabelle
  imports Main "HOL-Library.AList"
begin

section \<open>The data model (types.ts)\<close>

text \<open>
  Strings are ASCII character lists.  A class with read-only fields is a datatype with
  selectors; a tagged union is a datatype with one constructor per tag.  An optional field
  (\<open>defaultValue?\<close>, \<open>eventSource?\<close>) is an \<open>option\<close>: \<open>None\<close> is the value
  \<open>undefined\<close> that reading the field yields in the source.
\<close>

datatype ResourceOutputReference =
  ResourceOutputReference (ref_category: string) (ref_resource: string) (ref_output: string)

datatype Table = ApiTable (apiName: string) (tableName: string)

definition apiTableOutputReference :: "Table \<Rightarrow> ResourceOutputReference" where
  "apiTableOutputReference table =
     ResourceOutputReference ''api'' (apiName table) ''GraphQLAPIIdOutput''"

datatype Parameter = Parameter (param_name: string) (param_defaultValue: "string option")

datatype UserPool = UserPool (authName: string)

definition userPoolOutputReference :: "UserPool \<Rightarrow> string \<Rightarrow> ResourceOutputReference" where
  "userPoolOutputReference userPool out =
     ResourceOutputReference ''auth'' (authName userPool) out"

datatype TableAction = UpdateItem | ReadItem

datatype UserPoolAction =
  ListUsers | AdminCreateUser | AdminGetUser | AdminLinkProviderForUser | AdminDeleteUser

text \<open>An element of \<open>IAMActionPermission.resources\<close>: \<open>string | ResourceOutputReference\<close>.\<close>

datatype IAMResource = ResourceString string | ResourceReference ResourceOutputReference

datatype Permission =
    TablePermission Table "TableAction list"
  | UserPoolPermission UserPool "UserPoolAction list"
  | SendMailPermission Parameter
  | IAMActionPermission "string list" "IAMResource list"

text \<open>\<open>VariableValueExpression = Parameter | ResourceOutputReference\<close>, told apart by
  \<open>instanceof Parameter\<close>.\<close>

datatype VariableValueExpression =
  ValueParameter Parameter | ValueReference ResourceOutputReference

datatype EnvironmentVariable =
    TableNameVariable Table
  | ParameterVariable string Parameter
  | ResourceOutputVariable string ResourceOutputReference
  | CoalescedVariable string VariableValueExpression VariableValueExpression

record LambdaFunction =
  fn_permissions :: "Permission list"
  fn_environment :: "EnvironmentVariable list"
  fn_eventSource :: "Table option"


section \<open>Template values\<close>

text \<open>
  The values the compiler builds: strings, numbers, booleans, arrays and plain objects.
  An object is the list of its own properties in insertion order, with pairwise different
  keys.  \<open>JUndefined\<close> is the value \<open>undefined\<close>: a property can hold it (the key is then
  present), and reading a missing property yields it.  The properties inherited from
  \<open>Object.prototype\<close> and the order of integer-like keys are outside the model.
\<close>

datatype jv =
    JUndefined
  | JNull
  | JStr string
  | JNum int
  | JBool bool
  | JArr "jv list"
  | JObj "(string \<times> jv) list"

text \<open>Reading \<open>v[k]\<close>.\<close>

fun getProp :: "jv \<Rightarrow> string \<Rightarrow> jv" where
  "getProp (JObj ps) k = (case map_of ps k of Some v \<Rightarrow> v | None \<Rightarrow> JUndefined)"
| "getProp _ k = JUndefined"

text \<open>\<open>k in v\<close> for own properties.\<close>

fun hasProp :: "jv \<Rightarrow> string \<Rightarrow> bool" where
  "hasProp (JObj ps) k = (map_of ps k \<noteq> None)"
| "hasProp _ k = False"

text \<open>Object spread \<open>{...obj, ...src}\<close>: every property of \<open>src\<close> is assigned in turn; an
  existing key keeps its place and takes the new value.\<close>

definition spread :: "(string \<times> jv) list \<Rightarrow> (string \<times> jv) list \<Rightarrow> (string \<times> jv) list" where
  "spread obj src = foldl (\<lambda>acc kv. AList.update (fst kv) (snd kv) acc) obj src"

text \<open>A template literal's \<open>${...}\<close> placeholder written into a \<open>Fn::Sub\<close> string.\<close>

definition subVar :: "string \<Rightarrow> string" where
  "subVar n = ''${'' @ n @ ''}''"

text \<open>\<open>String.prototype.toUpperCase\<close> on ASCII strings.\<close>

definition toUpperChar :: "char \<Rightarrow> char" where
  "toUpperChar c =
     (case map_of (zip ''abcdefghijklmnopqrstuvwxyz'' ''ABCDEFGHIJKLMNOPQRSTUVWXYZ'') c of
        Some u \<Rightarrow> u
      | None \<Rightarrow> c)"

definition toUpperCase :: "string \<Rightarrow> string" where
  "toUpperCase s = map toUpperChar s"


section \<open>The lodash functions the compiler calls\<close>

definition flatten :: "'a list list \<Rightarrow> 'a list" where
  "flatten xss = concat xss"

text \<open>\<open>uniq\<close> keeps the first occurrence of every element.  On objects it compares
  references, so it is applied to addresses below.\<close>

fun uniq :: "'a list \<Rightarrow> 'a list" where
  "uniq [] = []"
| "uniq (x # xs) = x # filter (\<lambda>y. y \<noteq> x) (uniq xs)"

text \<open>\<open>fromPairs\<close>: \<open>result[pair[0]] = pair[1]\<close> for every pair in turn.\<close>

definition fromPairs :: "(string \<times> jv) list \<Rightarrow> (string \<times> jv) list" where
  "fromPairs pairs = foldl (\<lambda>result pair. AList.update (fst pair) (snd pair) result) [] pairs"

text \<open>
  \<open>merge(object, ...sources)\<close>: for every key of a source, a plain-object or array value
  is merged recursively into the destination value (into a fresh \<open>{}\<close> or \<open>[]\<close> when the
  destination is not of that kind), any other value is assigned, and a source value
  \<open>undefined\<close> is skipped when the destination has the key and assigned when it has not.
  \<open>mergeValue\<close> takes the destination's value at the key, \<open>None\<close> when the key is missing,
  and returns the value the key holds afterwards.

  At the key \<open>__proto__\<close> nothing of this happens for an object, an array or \<open>undefined\<close>:
  \<open>merge\<close> reads an object-valued property through \<open>safeGet\<close>, which yields \<open>undefined\<close>
  at that key, and \<open>undefined\<close> is only assigned to a key that is not \<open>in\<close> the
  destination, which \<open>__proto__\<close> always is.  The destination is left as it is.
\<close>

text \<open>lodash's \<open>isObject\<close> on template values.\<close>

fun isObject :: "jv \<Rightarrow> bool" where
  "isObject (JObj ps) = True"
| "isObject (JArr xs) = True"
| "isObject _ = False"

definition skipsProto :: "string \<Rightarrow> jv \<Rightarrow> bool" where
  "skipsProto k v = (k = ''__proto__'' \<and> (isObject v \<or> v = JUndefined))"

fun baseMerge :: "(string \<times> jv) list \<Rightarrow> (string \<times> jv) list \<Rightarrow> (string \<times> jv) list"
  and mergeValue :: "jv option \<Rightarrow> jv \<Rightarrow> jv"
  and mergeArray :: "jv list \<Rightarrow> jv list \<Rightarrow> jv list"
where
  "baseMerge obj [] = obj"
| "baseMerge obj ((k, v) # src) =
     (if skipsProto k v then baseMerge obj src
      else baseMerge (AList.update k (mergeValue (map_of obj k) v) obj) src)"
| "mergeValue ov JUndefined = (case ov of None \<Rightarrow> JUndefined | Some v \<Rightarrow> v)"
| "mergeValue ov (JObj ps) =
     JObj (baseMerge (case ov of Some (JObj qs) \<Rightarrow> qs | _ \<Rightarrow> []) ps)"
| "mergeValue ov (JArr xs) =
     JArr (mergeArray (case ov of Some (JArr ys) \<Rightarrow> ys | _ \<Rightarrow> []) xs)"
| "mergeValue ov JNull = JNull"
| "mergeValue ov (JStr s) = JStr s"
| "mergeValue ov (JNum n) = JNum n"
| "mergeValue ov (JBool b) = JBool b"
| "mergeArray ys [] = ys"
| "mergeArray [] (x # xs) = mergeValue None x # mergeArray [] xs"
| "mergeArray (y # ys) (x # xs) = mergeValue (Some y) x # mergeArray ys xs"

definition merge :: "(string \<times> jv) list \<Rightarrow> (string \<times> jv) list list \<Rightarrow> (string \<times> jv) list" where
  "merge object sources = foldl baseMerge object sources"

text \<open>
  What \<open>JSON.stringify\<close> writes (index.ts writes the document with it): a property
  holding \<open>undefined\<close> is left out, an array element \<open>undefined\<close> is written as \<open>null\<close>.
\<close>

fun jsonValue :: "jv \<Rightarrow> jv"
  and jsonProps :: "(string \<times> jv) list \<Rightarrow> (string \<times> jv) list"
  and jsonElems :: "jv list \<Rightarrow> jv list"
where
  "jsonValue (JObj ps) = JObj (jsonProps ps)"
| "jsonValue (JArr xs) = JArr (jsonElems xs)"
| "jsonValue JUndefined = JUndefined"
| "jsonValue JNull = JNull"
| "jsonValue (JStr s) = JStr s"
| "jsonValue (JNum n) = JNum n"
| "jsonValue (JBool b) = JBool b"
| "jsonProps [] = []"
| "jsonProps ((k, v) # ps) =
     (if v = JUndefined then jsonProps ps else (k, jsonValue v) # jsonProps ps)"
| "jsonElems [] = []"
| "jsonElems (x # xs) = (if x = JUndefined then JNull else jsonValue x) # jsonElems xs"


section \<open>Capability providers (buildCloudFormationTemplate.ts)\<close>

datatype CFParameter = CFParameter (cf_name: string) (cf_defaultValue: "string option")

datatype CFConditionDefinition = CFConditionDefinition (cond_name: string) (cond_block: jv)

datatype CFVariableDefinition = CFVariableDefinition (var_name: string) (var_block: jv)

definition ResourceOutputReferenceParameterProvider_toParameter ::
  "ResourceOutputReference \<Rightarrow> CFParameter" where
  "ResourceOutputReferenceParameterProvider_toParameter ref =
     CFParameter (ref_category ref @ ref_resource ref @ ref_output ref) None"

definition ParameterExpressionProvider_toExpression :: "string \<Rightarrow> jv" where
  "ParameterExpressionProvider_toExpression n = JObj [(''Ref'', JStr n)]"

definition ResourceOutputReferenceExpressionProvider_toExpression ::
  "ResourceOutputReference \<Rightarrow> jv" where
  "ResourceOutputReferenceExpressionProvider_toExpression ref =
     ParameterExpressionProvider_toExpression
       (cf_name (ResourceOutputReferenceParameterProvider_toParameter ref))"

definition TableParameterProvider_toParameter :: "Table \<Rightarrow> CFParameter" where
  "TableParameterProvider_toParameter table =
     ResourceOutputReferenceParameterProvider_toParameter (apiTableOutputReference table)"

definition TableResourceOutputReferenceProvider_toOutputReferences ::
  "Table \<Rightarrow> ResourceOutputReference list" where
  "TableResourceOutputReferenceProvider_toOutputReferences table =
     [apiTableOutputReference table]"

definition toNameExpression :: "Table \<Rightarrow> jv" where
  "toNameExpression table =
     (let tableParameter = TableParameterProvider_toParameter table in
      JObj [(''Fn::ImportValue'',
        JObj [(''Fn::Sub'',
          JStr (subVar (cf_name tableParameter) @ '':GetAtt:'' @ tableName table
                @ ''Table:Name''))])])"

definition toArnExpression :: "Table \<Rightarrow> jv" where
  "toArnExpression table =
     (let tableParameter = TableParameterProvider_toParameter table in
      JObj [(''Fn::ImportValue'',
        JObj [(''Fn::Sub'',
          JStr (subVar (cf_name tableParameter) @ '':GetAtt:'' @ tableName table
                @ ''Table:Arn''))])])"

definition toStreamArnExpression :: "Table \<Rightarrow> jv" where
  "toStreamArnExpression table =
     (let tableParameter = TableParameterProvider_toParameter table in
      JObj [(''Fn::ImportValue'',
        JObj [(''Fn::Sub'',
          JStr (subVar (cf_name tableParameter) @ '':GetAtt:'' @ tableName table
                @ ''Table:StreamArn''))])])"

fun policyActionForTableAction :: "TableAction \<Rightarrow> string" where
  "policyActionForTableAction ReadItem = ''dynamodb:GetItem''"
| "policyActionForTableAction UpdateItem = ''dynamodb:UpdateItem''"

text \<open>The string a \<open>UserPoolAction\<close> is.\<close>

fun userPoolActionName :: "UserPoolAction \<Rightarrow> string" where
  "userPoolActionName ListUsers = ''ListUsers''"
| "userPoolActionName AdminCreateUser = ''AdminCreateUser''"
| "userPoolActionName AdminGetUser = ''AdminGetUser''"
| "userPoolActionName AdminLinkProviderForUser = ''AdminLinkProviderForUser''"
| "userPoolActionName AdminDeleteUser = ''AdminDeleteUser''"

definition policyActionForUserPoolAction :: "UserPoolAction \<Rightarrow> string" where
  "policyActionForUserPoolAction action = ''cognito-idp:'' @ userPoolActionName action"

text \<open>\<open>reducePermission\<close> dispatches on the tag, so each provider is one equation per
  variant.\<close>

fun toPolicyStatement :: "Permission \<Rightarrow> jv" where
  "toPolicyStatement (TablePermission table actions) =
     (let tableParam =
        ResourceOutputReferenceParameterProvider_toParameter (apiTableOutputReference table)
      in JObj [
        (''Effect'', JStr ''Allow''),
        (''Action'', JArr (map (\<lambda>a. JStr (policyActionForTableAction a)) actions)),
        (''Resource'', JArr [
          JObj [(''Fn::Sub'', JArr [
            JStr ''arn:aws:dynamodb:${region}:${account}:table/${tableName}'',
            JObj [
              (''region'', JObj [(''Ref'', JStr ''AWS::Region'')]),
              (''account'', JObj [(''Ref'', JStr ''AWS::AccountId'')]),
              (''tableName'', JObj [(''Fn::ImportValue'',
                 JObj [(''Fn::Sub'',
                   JStr (subVar (cf_name tableParam) @ '':GetAtt:'' @ tableName table
                         @ ''Table:Name''))])])]])]])])"
| "toPolicyStatement (UserPoolPermission userPool actions) =
     (let userPoolIdExpression =
        ResourceOutputReferenceExpressionProvider_toExpression
          (userPoolOutputReference userPool ''UserPoolId'')
      in JObj [
        (''Effect'', JStr ''Allow''),
        (''Action'', JArr (map (\<lambda>a. JStr (policyActionForUserPoolAction a)) actions)),
        (''Resource'', JObj [(''Fn::Sub'', JArr [
            JStr ''arn:aws:cognito-idp:${region}:${account}:userpool/${userPoolId}'',
            JObj [
              (''region'', JObj [(''Ref'', JStr ''AWS::Region'')]),
              (''account'', JObj [(''Ref'', JStr ''AWS::AccountId'')]),
              (''userPoolId'', userPoolIdExpression)]])])])"
| "toPolicyStatement (SendMailPermission identity) =
     JObj [
       (''Effect'', JStr ''Allow''),
       (''Action'', JArr [JStr ''ses:SendEmail'']),
       (''Resource'', JObj [(''Fn::Sub'', JStr (subVar (param_name identity)))])]"
| "toPolicyStatement (IAMActionPermission actions resources) =
     JObj [
       (''Effect'', JStr ''Allow''),
       (''Action'', JArr (map JStr actions)),
       (''Resource'', JArr (map (\<lambda>r. case r of
            ResourceString s \<Rightarrow> JStr s
          | ResourceReference ref \<Rightarrow>
              ResourceOutputReferenceExpressionProvider_toExpression ref) resources))]"

fun valueToParameter :: "VariableValueExpression \<Rightarrow> CFParameter list" where
  "valueToParameter (ValueReference ref) =
     [ResourceOutputReferenceParameterProvider_toParameter ref]"
| "valueToParameter (ValueParameter p) =
     [CFParameter (param_name p) (param_defaultValue p)]"

fun isResourceOutputReference :: "IAMResource \<Rightarrow> bool" where
  "isResourceOutputReference (ResourceString s) = False"
| "isResourceOutputReference (ResourceReference ref) = True"

text \<open>The reference an element that passed \<open>isResourceOutputReference\<close> is.\<close>

fun referencesOf :: "IAMResource list \<Rightarrow> ResourceOutputReference list" where
  "referencesOf [] = []"
| "referencesOf (ResourceString s # rs) = referencesOf rs"
| "referencesOf (ResourceReference ref # rs) = ref # referencesOf rs"

fun PermissionParametersProvider_toParameters :: "Permission \<Rightarrow> CFParameter list" where
  "PermissionParametersProvider_toParameters (TablePermission table actions) =
     [ResourceOutputReferenceParameterProvider_toParameter (apiTableOutputReference table)]"
| "PermissionParametersProvider_toParameters (UserPoolPermission userPool actions) =
     [ResourceOutputReferenceParameterProvider_toParameter
        (userPoolOutputReference userPool ''UserPoolId'')]"
| "PermissionParametersProvider_toParameters (SendMailPermission identity) =
     valueToParameter (ValueParameter identity)"
| "PermissionParametersProvider_toParameters (IAMActionPermission actions resources) =
     map ResourceOutputReferenceParameterProvider_toParameter
       (referencesOf (filter isResourceOutputReference resources))"

fun PermissionResourceOutputReferenceProvider_toOutputReferences ::
  "Permission \<Rightarrow> ResourceOutputReference list" where
  "PermissionResourceOutputReferenceProvider_toOutputReferences (TablePermission table actions) =
     [apiTableOutputReference table]"
| "PermissionResourceOutputReferenceProvider_toOutputReferences
     (UserPoolPermission userPool actions) =
     [userPoolOutputReference userPool ''UserPoolId'']"
| "PermissionResourceOutputReferenceProvider_toOutputReferences (SendMailPermission identity) =
     []"
| "PermissionResourceOutputReferenceProvider_toOutputReferences
     (IAMActionPermission actions resources) =
     referencesOf (filter isResourceOutputReference resources)"

definition PermissionConditionProvider_toConditions ::
  "Permission \<Rightarrow> CFConditionDefinition list" where
  "PermissionConditionProvider_toConditions p = []"

fun EnvironmentVariableParametersProvider_toParameters ::
  "EnvironmentVariable \<Rightarrow> CFParameter list" where
  "EnvironmentVariableParametersProvider_toParameters (TableNameVariable table) =
     [ResourceOutputReferenceParameterProvider_toParameter (apiTableOutputReference table)]"
| "EnvironmentVariableParametersProvider_toParameters (ParameterVariable n parameter) =
     valueToParameter (ValueParameter parameter)"
| "EnvironmentVariableParametersProvider_toParameters (ResourceOutputVariable n reference) =
     [ResourceOutputReferenceParameterProvider_toParameter reference]"
| "EnvironmentVariableParametersProvider_toParameters (CoalescedVariable n first second) =
     valueToParameter first @ valueToParameter second"

fun variableValueExpressionToCfExpression :: "VariableValueExpression \<Rightarrow> jv" where
  "variableValueExpressionToCfExpression (ValueParameter p) =
     ParameterExpressionProvider_toExpression (param_name p)"
| "variableValueExpressionToCfExpression (ValueReference r) =
     JObj [(''Ref'', JStr (cf_name (ResourceOutputReferenceParameterProvider_toParameter r)))]"

text \<open>\<open>conditionNameForEnv\<close> reads only the variable's name.\<close>

definition conditionNameForEnv :: "string \<Rightarrow> string" where
  "conditionNameForEnv n = ''FirstNotEmpty_'' @ n"

fun toVariable :: "EnvironmentVariable \<Rightarrow> CFVariableDefinition" where
  "toVariable (TableNameVariable table) =
     (let tableOutputRef = apiTableOutputReference table;
          tableParameter = ResourceOutputReferenceParameterProvider_toParameter tableOutputRef
      in CFVariableDefinition
           (toUpperCase (tableName table @ ''_table_name''))
           (JObj [(''Fn::ImportValue'',
              JObj [(''Fn::Sub'',
                JStr (subVar (cf_name tableParameter) @ '':GetAtt:'' @ tableName table
                      @ ''Table:Name''))])]))"
| "toVariable (ParameterVariable n parameter) =
     CFVariableDefinition n (ParameterExpressionProvider_toExpression (param_name parameter))"
| "toVariable (ResourceOutputVariable n reference) =
     CFVariableDefinition n (ResourceOutputReferenceExpressionProvider_toExpression reference)"
| "toVariable (CoalescedVariable n first second) =
     CFVariableDefinition n
       (JObj [(''Fn::If'', JArr [
          JStr (conditionNameForEnv n),
          variableValueExpressionToCfExpression first,
          variableValueExpressionToCfExpression second])])"

fun variableValueExpressionToResourceOutputReferences ::
  "VariableValueExpression \<Rightarrow> ResourceOutputReference list" where
  "variableValueExpressionToResourceOutputReferences (ValueParameter p) = []"
| "variableValueExpressionToResourceOutputReferences (ValueReference reference) = [reference]"

fun EnvironmentVariableResourceOutputReferenceProvider_toOutputReferences ::
  "EnvironmentVariable \<Rightarrow> ResourceOutputReference list" where
  "EnvironmentVariableResourceOutputReferenceProvider_toOutputReferences
     (TableNameVariable table) = [apiTableOutputReference table]"
| "EnvironmentVariableResourceOutputReferenceProvider_toOutputReferences
     (ParameterVariable n parameter) = []"
| "EnvironmentVariableResourceOutputReferenceProvider_toOutputReferences
     (ResourceOutputVariable n reference) = [reference]"
| "EnvironmentVariableResourceOutputReferenceProvider_toOutputReferences
     (CoalescedVariable n first second) =
     variableValueExpressionToResourceOutputReferences first
     @ variableValueExpressionToResourceOutputReferences second"

fun EnvironmentVariableConditionProvider_toConditions ::
  "EnvironmentVariable \<Rightarrow> CFConditionDefinition list" where
  "EnvironmentVariableConditionProvider_toConditions (TableNameVariable table) = []"
| "EnvironmentVariableConditionProvider_toConditions (ParameterVariable n parameter) = []"
| "EnvironmentVariableConditionProvider_toConditions (ResourceOutputVariable n reference) = []"
| "EnvironmentVariableConditionProvider_toConditions (CoalescedVariable n first second) =
     [CFConditionDefinition (conditionNameForEnv n)
        (JObj [(''Fn::Not'', JArr [
           JObj [(''Fn::Equals'', JArr [
             variableValueExpressionToCfExpression first,
             JStr ''''])]])])]"


section \<open>The template assembler\<close>

text \<open>
  \<open>buildCloudFormationTemplate\<close> with the providers its caller passes (\<open>CFEnvironment\<close>,
  \<open>CFPermissions\<close> and the table providers).  \<open>eventSource ? ... : ...\<close> tests an object
  or \<open>undefined\<close>, so it is a case distinction on the option.
\<close>

definition sourceTableParameter :: "Table option \<Rightarrow> CFParameter option" where
  "sourceTableParameter eventSource =
     (case eventSource of
        Some table \<Rightarrow> Some (TableParameterProvider_toParameter table)
      | None \<Rightarrow> None)"

text \<open>The argument of \<open>uniq\<close>: the flattened parameter objects.\<close>

definition parameterObjects ::
  "Table option \<Rightarrow> EnvironmentVariable list \<Rightarrow> Permission list \<Rightarrow> CFParameter list" where
  "parameterObjects eventSource environment permissions =
     flatten
       (map EnvironmentVariableParametersProvider_toParameters environment
        @ map PermissionParametersProvider_toParameters permissions
        @ [case sourceTableParameter eventSource of Some p \<Rightarrow> [p] | None \<Rightarrow> []])"

text \<open>
  Every provider returns freshly built object literals, so the \<open>i\<close>-th object of the
  flattened list is an object of its own: its address is \<open>i\<close>.  \<open>uniq\<close> compares the
  references.
\<close>

definition parameters ::
  "Table option \<Rightarrow> EnvironmentVariable list \<Rightarrow> Permission list \<Rightarrow> CFParameter list" where
  "parameters eventSource environment permissions =
     (let objects = parameterObjects eventSource environment permissions
      in map (\<lambda>address. objects ! address) (uniq [0..<length objects]))"

definition conditions ::
  "EnvironmentVariable list \<Rightarrow> Permission list \<Rightarrow> CFConditionDefinition list" where
  "conditions environment permissions =
     flatten
       (map EnvironmentVariableConditionProvider_toConditions environment
        @ map PermissionConditionProvider_toConditions permissions)"

text \<open>An optional string as a property value.\<close>

definition optionalString :: "string option \<Rightarrow> jv" where
  "optionalString s = (case s of Some d \<Rightarrow> JStr d | None \<Rightarrow> JUndefined)"

definition parameterEntry :: "CFParameter \<Rightarrow> (string \<times> jv) list" where
  "parameterEntry parameter =
     [(cf_name parameter,
       JObj [(''Type'', JStr ''String''),
             (''Default'', optionalString (cf_defaultValue parameter))])]"

definition ParametersSection ::
  "string \<Rightarrow> Table option \<Rightarrow> EnvironmentVariable list \<Rightarrow> Permission list \<Rightarrow> jv" where
  "ParametersSection name eventSource environment permissions =
     JObj (merge
       [(''env'', JObj [(''Type'', JStr ''String'')]),
        (''resourceName'', JObj [(''Type'', JStr ''String''), (''Default'', JStr name)])]
       (map parameterEntry (parameters eventSource environment permissions)))"

definition ConditionsSection :: "EnvironmentVariable list \<Rightarrow> Permission list \<Rightarrow> jv" where
  "ConditionsSection environment permissions =
     JObj (spread
       [(''ShouldNotCreateEnvResources'',
         JObj [(''Fn::Equals'', JArr [JObj [(''Ref'', JStr ''env'')], JStr ''NONE''])])]
       (fromPairs
          (map (\<lambda>condition. (cond_name condition, cond_block condition))
             (conditions environment permissions))))"

definition LambdaFunctionResource :: "string \<Rightarrow> EnvironmentVariable list \<Rightarrow> jv" where
  "LambdaFunctionResource name environment =
     JObj [
       (''Type'', JStr ''AWS::Lambda::Function''),
       (''Metadata'', JObj [
          (''aws:asset:path'', JStr ''./src''),
          (''aws:asset:property'', JStr ''Code'')]),
       (''Properties'', JObj [
          (''Handler'', JStr ''index.handler''),
          (''FunctionName'', JObj [(''Fn::If'', JArr [
             JStr ''ShouldNotCreateEnvResources'',
             JStr name,
             JObj [(''Fn::Join'', JArr [
               JStr '''',
               JArr [JStr name, JStr ''-'', JObj [(''Ref'', JStr ''env'')]]])]])]),
          (''Environment'', JObj [
             (''Variables'', JObj (merge
                [(''ENV'', JObj [(''Ref'', JStr ''env'')]),
                 (''REGION'', JObj [(''Ref'', JStr ''AWS::Region'')])]
                (map (\<lambda>v. [(var_name v, var_block v)]) (map toVariable environment))))]),
          (''Role'', JObj [(''Fn::GetAtt'', JArr [JStr ''LambdaExecutionRole'', JStr ''Arn''])]),
          (''Runtime'', JStr ''nodejs10.x''),
          (''Timeout'', JStr ''25'')])]"

definition LambdaExecutionRole :: "string \<Rightarrow> jv" where
  "LambdaExecutionRole name =
     JObj [
       (''Type'', JStr ''AWS::IAM::Role''),
       (''Properties'', JObj [
          (''RoleName'', JObj [(''Fn::If'', JArr [
             JStr ''ShouldNotCreateEnvResources'',
             JStr (name @ ''LambdaRole''),
             JObj [(''Fn::Join'', JArr [
               JStr '''',
               JArr [JStr (name @ ''LambdaRole''), JStr ''-'',
                     JObj [(''Ref'', JStr ''env'')]]])]])]),
          (''AssumeRolePolicyDocument'', JObj [
             (''Version'', JStr ''2012-10-17''),
             (''Statement'', JArr [
                JObj [
                  (''Effect'', JStr ''Allow''),
                  (''Principal'', JObj [(''Service'', JArr [JStr ''lambda.amazonaws.com''])]),
                  (''Action'', JArr [JStr ''sts:AssumeRole''])]])])])]"

definition lambdaexecutionpolicy :: "Permission list \<Rightarrow> jv" where
  "lambdaexecutionpolicy permissions =
     JObj [
       (''DependsOn'', JArr [JStr ''LambdaExecutionRole'']),
       (''Type'', JStr ''AWS::IAM::Policy''),
       (''Properties'', JObj [
          (''PolicyName'', JStr ''lambda-execution-policy''),
          (''Roles'', JArr [JObj [(''Ref'', JStr ''LambdaExecutionRole'')]]),
          (''PolicyDocument'', JObj [
             (''Version'', JStr ''2012-10-17''),
             (''Statement'', JArr (
                JObj [
                  (''Effect'', JStr ''Allow''),
                  (''Action'', JArr [
                     JStr ''logs:CreateLogGroup'',
                     JStr ''logs:CreateLogStream'',
                     JStr ''logs:PutLogEvents'']),
                  (''Resource'', JObj [(''Fn::Sub'', JArr [
                     JStr ''arn:aws:logs:${region}:${account}:log-group:/aws/lambda/${lambda}:log-stream:*'',
                     JObj [
                       (''region'', JObj [(''Ref'', JStr ''AWS::Region'')]),
                       (''account'', JObj [(''Ref'', JStr ''AWS::AccountId'')]),
                       (''lambda'', JObj [(''Ref'', JStr ''LambdaFunction'')])]])])]
                # map toPolicyStatement permissions))])])]"

definition LambdaTriggerPolicy :: "Table \<Rightarrow> jv" where
  "LambdaTriggerPolicy eventSource =
     JObj [
       (''DependsOn'', JArr [JStr ''LambdaExecutionRole'']),
       (''Type'', JStr ''AWS::IAM::Policy''),
       (''Properties'', JObj [
          (''PolicyName'', JStr ''amplify-lambda-execution-policy''),
          (''Roles'', JArr [JObj [(''Ref'', JStr ''LambdaExecutionRole'')]]),
          (''PolicyDocument'', JObj [
             (''Version'', JStr ''2012-10-17''),
             (''Statement'', JArr [
                JObj [
                  (''Effect'', JStr ''Allow''),
                  (''Action'', JArr [
                     JStr ''dynamodb:DescribeStream'',
                     JStr ''dynamodb:GetRecords'',
                     JStr ''dynamodb:GetShardIterator'',
                     JStr ''dynamodb:ListStreams'']),
                  (''Resource'', toStreamArnExpression eventSource)]])])])]"

definition LambdaEventSourceMapping :: "Table \<Rightarrow> jv" where
  "LambdaEventSourceMapping eventSource =
     JObj [
       (''Type'', JStr ''AWS::Lambda::EventSourceMapping''),
       (''DependsOn'', JArr [JStr ''LambdaTriggerPolicy'', JStr ''LambdaExecutionRole'']),
       (''Properties'', JObj [
          (''BatchSize'', JNum 1),
          (''MaximumBatchingWindowInSeconds'', JNum 1),
          (''Enabled'', JBool True),
          (''EventSourceArn'', toStreamArnExpression eventSource),
          (''FunctionName'', JObj [(''Fn::GetAtt'', JArr [JStr ''LambdaFunction'', JStr ''Arn''])]),
          (''StartingPosition'', JStr ''LATEST'')])]"

definition ResourcesSection ::
  "string \<Rightarrow> Table option \<Rightarrow> EnvironmentVariable list \<Rightarrow> Permission list \<Rightarrow> jv" where
  "ResourcesSection name eventSource environment permissions =
     JObj (spread
       [(''LambdaFunction'', LambdaFunctionResource name environment),
        (''LambdaExecutionRole'', LambdaExecutionRole name),
        (''lambdaexecutionpolicy'', lambdaexecutionpolicy permissions)]
       (case eventSource of
          Some table \<Rightarrow>
            [(''LambdaTriggerPolicy'', LambdaTriggerPolicy table),
             (''LambdaEventSourceMapping'', LambdaEventSourceMapping table)]
        | None \<Rightarrow> []))"

definition OutputsSection :: jv where
  "OutputsSection =
     JObj [
       (''Name'', JObj [(''Value'', JObj [(''Ref'', JStr ''LambdaFunction'')])]),
       (''Arn'', JObj [(''Value'',
          JObj [(''Fn::GetAtt'', JArr [JStr ''LambdaFunction'', JStr ''Arn''])])]),
       (''Region'', JObj [(''Value'', JObj [(''Ref'', JStr ''AWS::Region'')])]),
       (''LambdaExecutionRole'', JObj [(''Value'',
          JObj [(''Ref'', JStr ''LambdaExecutionRole'')])])]"

definition buildCloudFormationTemplate ::
  "string \<Rightarrow> Table option \<Rightarrow> EnvironmentVariable list \<Rightarrow> Permission list \<Rightarrow> jv" where
  "buildCloudFormationTemplate name eventSource environment permissions =
     JObj [
       (''AWSTemplateFormatVersion'', JStr ''2010-09-09''),
       (''Description'', JStr ''Lambda resource stack creation using Amplify CLI''),
       (''Parameters'', ParametersSection name eventSource environment permissions),
       (''Conditions'', ConditionsSection environment permissions),
       (''Resources'', ResourcesSection name eventSource environment permissions),
       (''Outputs'', OutputsSection)]"

text \<open>The document compiled for a function definition (\<open>buildFunction\<close> in index.ts).\<close>

definition compile :: "string \<Rightarrow> LambdaFunction \<Rightarrow> jv" where
  "compile name metadata =
     buildCloudFormationTemplate name (fn_eventSource metadata) (fn_environment metadata)
       (fn_permissions metadata)"

text \<open>How many own properties of an object have the key \<open>k\<close>.\<close>

fun keyCount :: "jv \<Rightarrow> string \<Rightarrow> nat" where
  "keyCount (JObj ps) k = length (filter (\<lambda>kv. fst kv = k) ps)"
| "keyCount _ k = 0"

text \<open>The keys of an object.\<close>

fun keysOf :: "jv \<Rightarrow> string list" where
  "keysOf (JObj ps) = map fst ps"
| "keysOf _ = []"

text \<open>Reading \<open>v[i]\<close> of an array.\<close>

fun getIndex :: "jv \<Rightarrow> nat \<Rightarrow> jv" where
  "getIndex (JArr xs) i = (if i < length xs then xs ! i else JUndefined)"
| "getIndex _ i = JUndefined"


section \<open>Auxiliary definitions for the statements\<close>

text \<open>The name and block of every condition the environment variables produce, in order.\<close>

definition conditionPairs :: "EnvironmentVariable list \<Rightarrow> (string \<times> jv) list" where
  "conditionPairs environment =
     map (\<lambda>condition. (cond_name condition, cond_block condition))
       (concat (map EnvironmentVariableConditionProvider_toConditions environment))"

text \<open>The properties of the \<open>Conditions\<close> object.\<close>

definition conditionProps :: "EnvironmentVariable list \<Rightarrow> (string \<times> jv) list" where
  "conditionProps environment =
     spread
       [(''ShouldNotCreateEnvResources'',
         JObj [(''Fn::Equals'', JArr [JObj [(''Ref'', JStr ''env'')], JStr ''NONE''])])]
       (fromPairs (conditionPairs environment))"

text \<open>The properties of the \<open>Parameters\<close> object for a list of collected parameters.\<close>

definition parameterProps :: "string \<Rightarrow> CFParameter list \<Rightarrow> (string \<times> jv) list" where
  "parameterProps name ps =
     merge
       [(''env'', JObj [(''Type'', JStr ''String'')]),
        (''resourceName'', JObj [(''Type'', JStr ''String''), (''Default'', JStr name)])]
       (map parameterEntry ps)"

text \<open>The default values that the collected parameters named \<open>n\<close> supply, in order.\<close>

definition suppliedDefaults :: "string \<Rightarrow> CFParameter list \<Rightarrow> string list" where
  "suppliedDefaults n ps = List.map_filter cf_defaultValue (filter (\<lambda>p. cf_name p = n) ps)"

text \<open>The \<open>Default\<close> that the entry of \<open>n\<close> holds after the merge: the last supplied
  default, otherwise what the fixed entries hold.\<close>

definition mergedDefault :: "string \<Rightarrow> string \<Rightarrow> CFParameter list \<Rightarrow> jv" where
  "mergedDefault name n ps =
     (if suppliedDefaults n ps = []
      then (if n = ''resourceName'' then JStr name else JUndefined)
      else JStr (last (suppliedDefaults n ps)))"


text \<open>
  The \<open>Parameter\<close> objects a function definition holds, in the order in which the
  assembler visits them: those of the environment variables (the parameter of a
  \<open>ParameterVariable\<close>, the \<open>Parameter\<close> legs of a \<open>CoalescedVariable\<close>), then those of the
  permissions (the identity of a \<open>SendMailPermission\<close>).  These are the inputs that can
  supply a default value.
\<close>

fun valueParameters :: "VariableValueExpression \<Rightarrow> Parameter list" where
  "valueParameters (ValueParameter p) = [p]"
| "valueParameters (ValueReference r) = []"

fun environmentParameters :: "EnvironmentVariable \<Rightarrow> Parameter list" where
  "environmentParameters (TableNameVariable table) = []"
| "environmentParameters (ParameterVariable n parameter) = [parameter]"
| "environmentParameters (ResourceOutputVariable n reference) = []"
| "environmentParameters (CoalescedVariable n first second) =
     valueParameters first @ valueParameters second"

fun permissionParameters :: "Permission \<Rightarrow> Parameter list" where
  "permissionParameters (SendMailPermission identity) = [identity]"
| "permissionParameters (TablePermission table actions) = []"
| "permissionParameters (UserPoolPermission userPool actions) = []"
| "permissionParameters (IAMActionPermission actions resources) = []"

definition declaredParameters ::
  "EnvironmentVariable list \<Rightarrow> Permission list \<Rightarrow> Parameter list" where
  "declaredParameters environment permissions =
     concat (map environmentParameters environment)
     @ concat (map permissionParameters permissions)"

text \<open>The default values that the \<open>Parameter\<close>s named \<open>n\<close> among \<open>ps\<close> supply, in
  order.\<close>

definition declaredDefaults :: "string \<Rightarrow> Parameter list \<Rightarrow> string list" where
  "declaredDefaults n ps =
     List.map_filter param_defaultValue (filter (\<lambda>p. param_name p = n) ps)"


section \<open>Association lists, \<open>uniq\<close>, \<open>spread\<close>, \<open>fromPairs\<close> and \<open>merge\<close>\<close>

lemma distinct_count1:
  "distinct (map fst ps) \<Longrightarrow> k \<in> fst ` set ps \<Longrightarrow> length (filter (\<lambda>kv. fst kv = k) ps) = 1"
proof (induction ps)
  case Nil then show ?case by simp
next
  case (Cons p ps)
  show ?case
  proof (cases "fst p = k")
    case True
    from Cons.prems(1) have "fst p \<notin> fst ` set ps" by simp
    with True have "\<forall>kv \<in> set ps. fst kv \<noteq> k" by (metis imageI)
    then have "filter (\<lambda>kv. fst kv = k) ps = []"
      by (simp add: filter_empty_conv)
    with True show ?thesis by simp
  next
    case False
    with Cons show ?thesis by auto
  qed
qed

lemma map_of_rev_distinct: "distinct (map fst xs) \<Longrightarrow> map_of (rev xs) = map_of xs"
proof (induction xs)
  case Nil then show ?case by simp
next
  case (Cons p xs)
  then have IH: "map_of (rev xs) = map_of xs" and fresh: "fst p \<notin> fst ` set xs" by simp_all
  have "dom (map_of [p]) \<inter> dom (map_of xs) = {}"
    using fresh by (cases p) (simp add: dom_map_of_conv_image_fst)
  then have "map_of [p] ++ map_of xs = map_of xs ++ map_of [p]" by (rule map_add_comm)
  then show ?case using IH by (cases p) simp
qed

text \<open>Assigning the properties of \<open>src\<close> one after the other: the last assignment to a
  key wins, and no key appears twice.\<close>

lemma assign_all_map_of:
  "map_of (foldl (\<lambda>acc kv. AList.update (fst kv) (snd kv) acc) obj src) =
     map_of obj ++ map_of (rev src)"
proof (induction src arbitrary: obj)
  case Nil then show ?case by simp
next
  case (Cons p src)
  have "map_of (AList.update (fst p) (snd p) obj) ++ map_of (rev src) =
        map_of obj ++ (map_of [p] ++ map_of (rev src))"
    by (cases p) (simp add: update_conv' fun_eq_iff map_add_def split: option.splits)
  with Cons.IH [of "AList.update (fst p) (snd p) obj"] show ?case by simp
qed

lemma assign_all_distinct:
  "distinct (map fst obj) \<Longrightarrow>
   distinct (map fst (foldl (\<lambda>acc kv. AList.update (fst kv) (snd kv) acc) obj src))"
  by (induction src arbitrary: obj) (simp_all add: distinct_update)

lemma assign_all_keys:
  "fst ` set (foldl (\<lambda>acc kv. AList.update (fst kv) (snd kv) acc) obj src) =
     fst ` set obj \<union> fst ` set src"
proof (induction src arbitrary: obj)
  case Nil then show ?case by simp
next
  case (Cons p src)
  show ?case by (simp add: Cons.IH dom_update)
qed

lemma fromPairs_distinct: "distinct (map fst (fromPairs pairs))"
  unfolding fromPairs_def by (rule assign_all_distinct) simp

lemma fromPairs_map_of: "map_of (fromPairs pairs) = map_of (rev pairs)"
  unfolding fromPairs_def by (simp add: assign_all_map_of)

lemma fromPairs_keys: "fst ` set (fromPairs pairs) = fst ` set pairs"
  unfolding fromPairs_def by (simp add: assign_all_keys)

text \<open>\<open>uniq\<close> leaves a list without repetitions as it is, so comparing the addresses of
  freshly built objects removes nothing.\<close>

lemma uniq_distinct_id: "distinct xs \<Longrightarrow> uniq xs = xs"
proof (induction xs)
  case Nil then show ?case by simp
next
  case (Cons x xs)
  then have "filter (\<lambda>y. y \<noteq> x) xs = xs" by (auto intro: filter_True)
  with Cons show ?case by simp
qed

lemma parameters_eq:
  "parameters eventSource environment permissions =
     parameterObjects eventSource environment permissions"
  by (simp add: parameters_def Let_def uniq_distinct_id map_nth)

lemma baseMerge_distinct: "distinct (map fst obj) \<Longrightarrow> distinct (map fst (baseMerge obj src))"
proof (induction src arbitrary: obj)
  case Nil then show ?case by simp
next
  case (Cons p src)
  obtain k v where p: "p = (k, v)" by (cases p)
  from Cons.prems have "distinct (map fst (AList.update k (mergeValue (map_of obj k) v) obj))"
    by (rule distinct_update)
  then show ?case using Cons.IH Cons.prems p by simp
qed

lemma merge_distinct: "distinct (map fst obj) \<Longrightarrow> distinct (map fst (merge obj srcs))"
  unfolding merge_def
  by (induction srcs arbitrary: obj) (auto simp: baseMerge_distinct)

text \<open>Serialising commutes with reading a property of an object.\<close>

lemma jsonProps_map_of:
  "distinct (map fst ps) \<Longrightarrow>
   map_of (jsonProps ps) k =
     (case map_of ps k of
        None \<Rightarrow> None
      | Some v \<Rightarrow> if v = JUndefined then None else Some (jsonValue v))"
proof (induction ps arbitrary: k)
  case Nil then show ?case by simp
next
  case (Cons p ps)
  obtain k' v' where p: "p = (k', v')" by (cases p)
  from Cons.prems p have fresh: "map_of ps k' = None"
    by (simp add: map_of_eq_None_iff)
  from Cons.prems have "distinct (map fst ps)" by simp
  note IH = Cons.IH [OF this]
  show ?case
    using IH [of k] IH [of k'] fresh by (simp add: p)
qed

lemma getProp_jsonValue:
  "distinct (map fst ps) \<Longrightarrow> getProp (jsonValue (JObj ps)) k = jsonValue (getProp (JObj ps) k)"
  by (simp add: jsonProps_map_of split: option.splits)


section \<open>The \<open>Conditions\<close> section\<close>

lemma conditions_environment:
  "conditions environment permissions =
     concat (map EnvironmentVariableConditionProvider_toConditions environment)"
  by (simp add: conditions_def flatten_def PermissionConditionProvider_toConditions_def)

lemma condition_names:
  "c \<in> set (EnvironmentVariableConditionProvider_toConditions e) \<Longrightarrow>
   \<exists>n f s. e = CoalescedVariable n f s \<and> cond_name c = ''FirstNotEmpty_'' @ n"
  by (cases e) (simp_all add: conditionNameForEnv_def)

lemma conditionPairs_append:
  "conditionPairs (xs @ ys) = conditionPairs xs @ conditionPairs ys"
  by (simp add: conditionPairs_def)

lemma conditionPairs_Cons_Coalesced:
  "conditionPairs (CoalescedVariable n f s # ys) =
     (''FirstNotEmpty_'' @ n, JObj [(''Fn::Not'', JArr [
           JObj [(''Fn::Equals'', JArr [variableValueExpressionToCfExpression f, JStr ''''])]])])
     # conditionPairs ys"
  by (simp add: conditionPairs_def conditionNameForEnv_def)

lemma conditionPairs_keys:
  "k \<in> fst ` set (conditionPairs environment) \<Longrightarrow>
   \<exists>n f s. CoalescedVariable n f s \<in> set environment \<and> k = ''FirstNotEmpty_'' @ n"
proof -
  assume "k \<in> fst ` set (conditionPairs environment)"
  then obtain e c where e: "e \<in> set environment"
    and c: "c \<in> set (EnvironmentVariableConditionProvider_toConditions e)"
    and k: "k = cond_name c"
    by (auto simp: conditionPairs_def)
  from condition_names [OF c] k e show ?thesis by blast
qed

lemma Conditions_of_document:
  "getProp (buildCloudFormationTemplate name eventSource environment permissions) ''Conditions'' =
     JObj (conditionProps environment)"
  by (simp add: buildCloudFormationTemplate_def ConditionsSection_def conditions_environment
        conditionPairs_def conditionProps_def)

lemma conditionProps_distinct: "distinct (map fst (conditionProps environment))"
  unfolding conditionProps_def spread_def by (rule assign_all_distinct) simp

lemma conditionProps_keys:
  "fst ` set (conditionProps environment) =
     {''ShouldNotCreateEnvResources''} \<union> fst ` set (conditionPairs environment)"
  unfolding conditionProps_def spread_def by (simp add: assign_all_keys fromPairs_keys)

lemma conditionProps_map_of:
  "map_of (conditionProps environment) =
     [''ShouldNotCreateEnvResources'' \<mapsto>
        JObj [(''Fn::Equals'', JArr [JObj [(''Ref'', JStr ''env'')], JStr ''NONE''])]]
     ++ map_of (rev (conditionPairs environment))"
proof -
  have "map_of (rev (fromPairs (conditionPairs environment))) =
        map_of (rev (conditionPairs environment))"
    by (simp add: map_of_rev_distinct fromPairs_distinct fromPairs_map_of)
  then show ?thesis
    unfolding conditionProps_def spread_def by (simp add: assign_all_map_of)
qed


section \<open>The \<open>Parameters\<close> section\<close>

lemma Parameters_of_document:
  "getProp (buildCloudFormationTemplate name eventSource environment permissions) ''Parameters'' =
     JObj (parameterProps name (parameters eventSource environment permissions))"
  by (simp add: buildCloudFormationTemplate_def ParametersSection_def parameterProps_def)

lemma parameterProps_distinct: "distinct (map fst (parameterProps name ps))"
  unfolding parameterProps_def by (rule merge_distinct) simp

lemma suppliedDefaults_append:
  "suppliedDefaults n (xs @ ys) = suppliedDefaults n xs @ suppliedDefaults n ys"
  by (simp add: suppliedDefaults_def map_filter_def)

lemma suppliedDefaults_snoc:
  "suppliedDefaults n (ps @ [p]) =
     suppliedDefaults n ps @
       (if cf_name p = n then (case cf_defaultValue p of Some d \<Rightarrow> [d] | None \<Rightarrow> []) else [])"
  by (simp add: suppliedDefaults_def map_filter_def split: option.splits)

lemma suppliedDefaults_unnamed: "n \<notin> cf_name ` set ps \<Longrightarrow> suppliedDefaults n ps = []"
  by (auto simp: suppliedDefaults_def map_filter_def filter_empty_conv)

lemma mergedDefault_snoc:
  "mergedDefault name n (ps @ [p]) =
     (if cf_name p = n
      then (case cf_defaultValue p of Some d \<Rightarrow> JStr d | None \<Rightarrow> mergedDefault name n ps)
      else mergedDefault name n ps)"
  by (simp add: mergedDefault_def suppliedDefaults_snoc split: option.splits)

lemma mergedDefault_cases:
  "mergedDefault name n ps = JUndefined \<or> (\<exists>d. mergedDefault name n ps = JStr d)"
  by (simp add: mergedDefault_def)

lemma mergeValue_optionalString:
  "mergeValue ov (optionalString dv) =
     (case dv of Some d \<Rightarrow> JStr d | None \<Rightarrow> (case ov of None \<Rightarrow> JUndefined | Some v \<Rightarrow> v))"
  by (cases dv) (simp_all add: optionalString_def)

lemma parameterProps_snoc:
  "parameterProps name (ps @ [p]) =
     (if cf_name p = ''__proto__'' then parameterProps name ps
      else AList.update (cf_name p)
       (mergeValue (map_of (parameterProps name ps) (cf_name p))
          (JObj [(''Type'', JStr ''String''),
                 (''Default'', optionalString (cf_defaultValue p))]))
       (parameterProps name ps))"
  by (simp add: parameterProps_def merge_def parameterEntry_def skipsProto_def)

lemma parameterProps_nil:
  "map_of (parameterProps name []) n =
     (if n = ''env'' then Some (JObj [(''Type'', JStr ''String'')])
      else if n = ''resourceName''
        then Some (JObj [(''Type'', JStr ''String''), (''Default'', JStr name)])
      else None)"
  by (simp add: parameterProps_def merge_def)

lemma parameterProps_map_of:
  "map_of (parameterProps name ps) n =
     (if n = ''__proto__'' then None
      else if n \<in> cf_name ` set ps
      then Some (JObj [(''Type'', JStr ''String''), (''Default'', mergedDefault name n ps)])
      else if n = ''env'' then Some (JObj [(''Type'', JStr ''String'')])
      else if n = ''resourceName''
        then Some (JObj [(''Type'', JStr ''String''), (''Default'', JStr name)])
      else None)"
proof (induction ps arbitrary: n rule: rev_induct)
  case Nil
  show ?case by (simp add: parameterProps_nil)
next
  case (snoc p ps)
  show ?case
  proof (cases "n = cf_name p")
    case False
    have a: "map_of (parameterProps name (ps @ [p])) n = map_of (parameterProps name ps) n"
      using False by (simp add: parameterProps_snoc update_conv')
    have b: "(n \<in> cf_name ` set (ps @ [p])) = (n \<in> cf_name ` set ps)"
      using False by auto
    have c: "mergedDefault name n (ps @ [p]) = mergedDefault name n ps"
      using False by (simp add: mergedDefault_snoc)
    show ?thesis unfolding a b c by (rule snoc.IH)
  next
    case same: True
    show ?thesis
    proof (cases "n = ''__proto__''")
      case True
      with same snoc.IH [of n] show ?thesis
        by (simp add: parameterProps_snoc)
    next
      case noproto: False
      let ?src = "JObj [(''Type'', JStr ''String''),
                        (''Default'', optionalString (cf_defaultValue p))]"
      have step: "map_of (parameterProps name (ps @ [p])) n =
          Some (mergeValue (map_of (parameterProps name ps) n) ?src)"
        using same noproto by (simp add: parameterProps_snoc update_conv')
      have new: "mergedDefault name n (ps @ [p]) =
          (case cf_defaultValue p of Some d \<Rightarrow> JStr d | None \<Rightarrow> mergedDefault name n ps)"
        unfolding same by (simp add: mergedDefault_snoc)
      have "mergeValue (map_of (parameterProps name ps) n) ?src =
          JObj [(''Type'', JStr ''String''), (''Default'', mergedDefault name n (ps @ [p]))]"
      proof (cases "n \<in> cf_name ` set ps")
        case True
        with noproto snoc.IH [of n] show ?thesis
          by (simp add: mergeValue_optionalString skipsProto_def new split: option.splits)
      next
        case False
        then have none: "suppliedDefaults n ps = []" by (rule suppliedDefaults_unnamed)
        from False noproto snoc.IH [of n]
        have old: "map_of (parameterProps name ps) n =
           (if n = ''env'' then Some (JObj [(''Type'', JStr ''String'')])
            else if n = ''resourceName''
              then Some (JObj [(''Type'', JStr ''String''), (''Default'', JStr name)])
            else None)" by simp
        show ?thesis
        proof (cases "n = ''env''")
          case True
          with none show ?thesis
            unfolding old new
            by (simp add: mergeValue_optionalString skipsProto_def mergedDefault_def split: option.splits)
        next
          case notenv: False
          show ?thesis
          proof (cases "n = ''resourceName''")
            case True
            with none show ?thesis
              unfolding old new
              by (simp add: mergeValue_optionalString skipsProto_def mergedDefault_def split: option.splits)
          next
            case False
            with notenv none show ?thesis
              unfolding old new
              by (simp add: mergeValue_optionalString skipsProto_def mergedDefault_def split: option.splits)
          qed
        qed
      qed
      with step same noproto show ?thesis by simp
    qed
  qed
qed

lemma parameterProps_has_key:
  "n \<in> cf_name ` set ps \<Longrightarrow> n \<noteq> ''__proto__'' \<Longrightarrow> n \<in> fst ` set (parameterProps name ps)"
proof -
  assume "n \<in> cf_name ` set ps" and "n \<noteq> ''__proto__''"
  then have "map_of (parameterProps name ps) n \<noteq> None"
    by (simp add: parameterProps_map_of)
  then show ?thesis by (simp add: map_of_eq_None_iff)
qed

lemma parameter_entry_raw:
  "getProp (getProp (JObj (parameterProps name ps)) n) ''Default'' =
     (if n = ''__proto__'' then JUndefined else mergedDefault name n ps)"
proof (cases "n \<in> cf_name ` set ps")
  case True
  then show ?thesis by (simp add: parameterProps_map_of)
next
  case False
  then have "suppliedDefaults n ps = []" by (rule suppliedDefaults_unnamed)
  with False show ?thesis
    by (simp add: parameterProps_map_of mergedDefault_def)
qed

lemma parameter_entry_json:
  "getProp (jsonValue (getProp (JObj (parameterProps name ps)) n)) ''Default'' =
     (if n = ''__proto__'' then JUndefined else mergedDefault name n ps)
   \<and> hasProp (jsonValue (getProp (JObj (parameterProps name ps)) n)) ''Default'' =
     (n \<noteq> ''__proto__'' \<and> mergedDefault name n ps \<noteq> JUndefined)"
proof (cases "n \<in> cf_name ` set ps")
  case True
  from mergedDefault_cases [of name n ps] True show ?thesis
    by (auto simp: parameterProps_map_of)
next
  case False
  then have "suppliedDefaults n ps = []" by (rule suppliedDefaults_unnamed)
  with False show ?thesis
    by (simp add: parameterProps_map_of mergedDefault_def)
qed

text \<open>The defaults among the collected parameters are those of the definition's
  \<open>Parameter\<close>s.\<close>

lemma declaredDefaults_append:
  "declaredDefaults n (xs @ ys) = declaredDefaults n xs @ declaredDefaults n ys"
  by (simp add: declaredDefaults_def map_filter_def)

lemma suppliedDefaults_reference:
  "suppliedDefaults n [ResourceOutputReferenceParameterProvider_toParameter r] = []"
  by (simp add: suppliedDefaults_def map_filter_def
        ResourceOutputReferenceParameterProvider_toParameter_def)

lemma suppliedDefaults_value:
  "suppliedDefaults n (valueToParameter v) = declaredDefaults n (valueParameters v)"
  by (cases v)
     (simp_all add: suppliedDefaults_reference,
      simp_all add: suppliedDefaults_def declaredDefaults_def map_filter_def)

lemma suppliedDefaults_environment:
  "suppliedDefaults n (EnvironmentVariableParametersProvider_toParameters e) =
     declaredDefaults n (environmentParameters e)"
proof (cases e)
  case (CoalescedVariable v f s)
  then show ?thesis
    by (simp add: suppliedDefaults_append declaredDefaults_append suppliedDefaults_value)
next
  case (ParameterVariable v p)
  then show ?thesis
    using suppliedDefaults_value [of n "ValueParameter p"] by simp
qed (simp_all add: suppliedDefaults_reference, simp_all add: declaredDefaults_def map_filter_def)

lemma suppliedDefaults_references:
  "suppliedDefaults n (map ResourceOutputReferenceParameterProvider_toParameter rs) = []"
  by (induction rs)
     (simp_all add: suppliedDefaults_def map_filter_def
        ResourceOutputReferenceParameterProvider_toParameter_def)

lemma suppliedDefaults_permission:
  "suppliedDefaults n (PermissionParametersProvider_toParameters p) =
     declaredDefaults n (permissionParameters p)"
proof (cases p)
  case (SendMailPermission identity)
  then show ?thesis
    using suppliedDefaults_value [of n "ValueParameter identity"] by simp
next
  case (IAMActionPermission actions resources)
  then show ?thesis
    by (simp add: suppliedDefaults_references) (simp add: declaredDefaults_def map_filter_def)
qed (simp_all add: suppliedDefaults_reference, simp_all add: declaredDefaults_def map_filter_def)

lemma suppliedDefaults_concat_environment:
  "suppliedDefaults n (concat (map EnvironmentVariableParametersProvider_toParameters es)) =
     declaredDefaults n (concat (map environmentParameters es))"
proof (induction es)
  case Nil
  show ?case by (simp add: suppliedDefaults_def declaredDefaults_def map_filter_def)
next
  case (Cons e es)
  then show ?case
    by (simp add: suppliedDefaults_append declaredDefaults_append suppliedDefaults_environment)
qed

lemma suppliedDefaults_concat_permissions:
  "suppliedDefaults n (concat (map PermissionParametersProvider_toParameters ps)) =
     declaredDefaults n (concat (map permissionParameters ps))"
proof (induction ps)
  case Nil
  show ?case by (simp add: suppliedDefaults_def declaredDefaults_def map_filter_def)
next
  case (Cons p ps)
  then show ?case
    by (simp add: suppliedDefaults_append declaredDefaults_append suppliedDefaults_permission)
qed

lemma declaredDefaults_nonempty:
  "declaredDefaults n ps \<noteq> [] \<longleftrightarrow>
     (\<exists>p \<in> set ps. param_name p = n \<and> param_defaultValue p \<noteq> None)"
  by (auto simp: declaredDefaults_def map_filter_def filter_empty_conv)

lemma collected_defaults:
  "suppliedDefaults n (parameters eventSource environment permissions) =
     declaredDefaults n (declaredParameters environment permissions)"
proof -
  have "suppliedDefaults n
          (case sourceTableParameter eventSource of Some p \<Rightarrow> [p] | None \<Rightarrow> []) = []"
  proof (cases eventSource)
    case None
    then show ?thesis
      by (simp add: sourceTableParameter_def suppliedDefaults_def map_filter_def)
  next
    case (Some table)
    then show ?thesis
      by (simp add: sourceTableParameter_def TableParameterProvider_toParameter_def
            suppliedDefaults_reference)
  qed
  then show ?thesis
    by (simp add: parameters_eq parameterObjects_def flatten_def suppliedDefaults_append
          declaredParameters_def declaredDefaults_append
          suppliedDefaults_concat_environment suppliedDefaults_concat_permissions)
qed

lemma Parameters_of_json_document:
  "getProp (jsonValue (buildCloudFormationTemplate name eventSource environment permissions))
     ''Parameters'' =
   jsonValue (JObj (parameterProps name (parameters eventSource environment permissions)))"
proof -
  have "getProp (jsonValue (buildCloudFormationTemplate name eventSource environment permissions))
     ''Parameters'' =
     jsonValue (getProp (buildCloudFormationTemplate name eventSource environment permissions)
       ''Parameters'')"
    unfolding buildCloudFormationTemplate_def
    by (rule getProp_jsonValue) simp
  then show ?thesis by (simp only: Parameters_of_document)
qed

lemma serialised_entry:
  "getProp (getProp
      (jsonValue (buildCloudFormationTemplate name eventSource environment permissions))
      ''Parameters'') n =
   jsonValue (getProp
     (JObj (parameterProps name (parameters eventSource environment permissions))) n)"
  unfolding Parameters_of_json_document
  by (rule getProp_jsonValue) (rule parameterProps_distinct)

lemma table_parameter_name_injective:
  "(cf_name (TableParameterProvider_toParameter ta) =
      cf_name (TableParameterProvider_toParameter tb))
     = (apiTableOutputReference ta = apiTableOutputReference tb)"
  by (simp add: TableParameterProvider_toParameter_def
        ResourceOutputReferenceParameterProvider_toParameter_def apiTableOutputReference_def)

lemma toUpperCase_append: "toUpperCase (a @ b) = toUpperCase a @ toUpperCase b"
  by (simp add: toUpperCase_def)


section \<open>The claims\<close>

text \<open>
  C1. When two permissions of a function definition reference the same table (equal
  \<open>apiName\<close> and \<open>tableName\<close>), the \<open>Parameters\<close> section of the compiled document has
  exactly one entry under the key \<open>'api' + apiName + 'GraphQLAPIIdOutput'\<close>.  The
  permissions are compared as values; \<open>uniq\<close> removes nothing (\<open>parameters_eq\<close>), the
  entries fall together in \<open>merge\<close>, by their key, and two tables have the same key
  exactly when their output references are equal.
\<close>

theorem same_table_one_parameter:
  assumes "i < length permissions" and "j < length permissions" and "i \<noteq> j"
    and "permissions ! i = TablePermission table1 actions1"
    and "permissions ! j = TablePermission table2 actions2"
    and "apiName table1 = apiName table2" and "tableName table1 = tableName table2"
  shows "keyCount
           (getProp (buildCloudFormationTemplate name eventSource environment permissions)
              ''Parameters'')
           (''api'' @ apiName table1 @ ''GraphQLAPIIdOutput'') = 1
    \<and> (cf_name (TableParameterProvider_toParameter ta) =
          cf_name (TableParameterProvider_toParameter tb))
       = (apiTableOutputReference ta = apiTableOutputReference tb)"
proof -
  let ?ps = "parameters eventSource environment permissions"
  let ?key = "''api'' @ apiName table1 @ ''GraphQLAPIIdOutput''"
  from assms(1,4) have "TablePermission table1 actions1 \<in> set permissions"
    by (metis nth_mem)
  then have "ResourceOutputReferenceParameterProvider_toParameter (apiTableOutputReference table1)
      \<in> set ?ps"
    by (force simp: parameters_eq parameterObjects_def flatten_def)
  then have "?key \<in> cf_name ` set ?ps"
    by (force simp: ResourceOutputReferenceParameterProvider_toParameter_def
          apiTableOutputReference_def)
  then have "?key \<in> fst ` set (parameterProps name ?ps)"
    by (rule parameterProps_has_key) simp
  from distinct_count1 [OF parameterProps_distinct this]
  have "keyCount
           (getProp (buildCloudFormationTemplate name eventSource environment permissions)
              ''Parameters'') ?key = 1"
    by (simp add: Parameters_of_document)
  then show ?thesis by (simp add: table_parameter_name_injective)
qed

theorem same_table_one_parameter_witness:
  "keyCount
     (getProp (buildCloudFormationTemplate ''fn'' None []
        [TablePermission (ApiTable ''myApi'' ''Todo'') [ReadItem],
         TablePermission (ApiTable ''myApi'' ''Todo'') [UpdateItem]])
        ''Parameters'')
     ''apimyApiGraphQLAPIIdOutput'' = 1"
  using same_table_one_parameter [of 0 "[TablePermission (ApiTable ''myApi'' ''Todo'') [ReadItem],
         TablePermission (ApiTable ''myApi'' ''Todo'') [UpdateItem]]" 1
       "ApiTable ''myApi'' ''Todo''" "[ReadItem]" "ApiTable ''myApi'' ''Todo''" "[UpdateItem]"
       "''fn''" None "[]" "ApiTable ''myApi'' ''Todo''" "ApiTable ''myApi'' ''Todo''"]
  by simp

text \<open>
  C2, as stated, fails: a \<open>TablePermission\<close> whose \<open>actions\<close> list is empty gets a policy
  statement with an empty \<open>Action\<close> list.
\<close>

theorem empty_actions_counterexample:
  "getProp (toPolicyStatement (TablePermission (ApiTable ''api1'' ''Notes'') [])) ''Action'' =
     JArr []"
  by simp

text \<open>
  C2, amended.  The policy statement of every permission has \<open>Effect\<close> \<open>"Allow"\<close>, and its
  \<open>Action\<close> list is the permission's own list of actions mapped element by element, in
  order: a table action to its \<open>dynamodb:\<close> action, a user-pool action \<open>A\<close> to
  \<open>cognito-idp:A\<close>, an IAM action to itself; for a \<open>SendMailPermission\<close> it is exactly
  \<open>[ses:SendEmail]\<close>.  So the list has one element per action of the permission, and is
  non-empty exactly when the permission's own list is.
\<close>

theorem policy_statement_effect_and_actions:
  "getProp (toPolicyStatement p) ''Effect'' = JStr ''Allow'' \<and>
   getProp (toPolicyStatement p) ''Action'' =
     JArr (case p of
         TablePermission table actions \<Rightarrow>
           map (\<lambda>a. JStr (case a of
                  ReadItem \<Rightarrow> ''dynamodb:GetItem''
                | UpdateItem \<Rightarrow> ''dynamodb:UpdateItem'')) actions
       | UserPoolPermission userPool actions \<Rightarrow>
           map (\<lambda>a. JStr (case a of
                  ListUsers \<Rightarrow> ''cognito-idp:ListUsers''
                | AdminCreateUser \<Rightarrow> ''cognito-idp:AdminCreateUser''
                | AdminGetUser \<Rightarrow> ''cognito-idp:AdminGetUser''
                | AdminLinkProviderForUser \<Rightarrow> ''cognito-idp:AdminLinkProviderForUser''
                | AdminDeleteUser \<Rightarrow> ''cognito-idp:AdminDeleteUser'')) actions
       | SendMailPermission identity \<Rightarrow> [JStr ''ses:SendEmail'']
       | IAMActionPermission actions resources \<Rightarrow> map JStr actions) \<and>
   (\<exists>as. getProp (toPolicyStatement p) ''Action'' = JArr as \<and>
      length as = (case p of
          TablePermission table actions \<Rightarrow> length actions
        | UserPoolPermission userPool actions \<Rightarrow> length actions
        | SendMailPermission identity \<Rightarrow> 1
        | IAMActionPermission actions resources \<Rightarrow> length actions) \<and>
      (as = []) = (case p of
          TablePermission table actions \<Rightarrow> actions = []
        | UserPoolPermission userPool actions \<Rightarrow> actions = []
        | SendMailPermission identity \<Rightarrow> False
        | IAMActionPermission actions resources \<Rightarrow> actions = []))"
proof -
  have table: "policyActionForTableAction a =
        (case a of ReadItem \<Rightarrow> ''dynamodb:GetItem'' | UpdateItem \<Rightarrow> ''dynamodb:UpdateItem'')"
    for a
    by (cases a) simp_all
  have pool: "policyActionForUserPoolAction a =
        (case a of
           ListUsers \<Rightarrow> ''cognito-idp:ListUsers''
         | AdminCreateUser \<Rightarrow> ''cognito-idp:AdminCreateUser''
         | AdminGetUser \<Rightarrow> ''cognito-idp:AdminGetUser''
         | AdminLinkProviderForUser \<Rightarrow> ''cognito-idp:AdminLinkProviderForUser''
         | AdminDeleteUser \<Rightarrow> ''cognito-idp:AdminDeleteUser'')"
    for a
    by (cases a) (simp_all add: policyActionForUserPoolAction_def)
  show ?thesis
    by (cases p) (simp_all add: Let_def table pool)
qed

text \<open>
  C3. Without an event source the \<open>Resources\<close> section has neither
  \<open>LambdaTriggerPolicy\<close> nor \<open>LambdaEventSourceMapping\<close>.  With one it has both, both
  depend on \<open>LambdaExecutionRole\<close>, and the mapping has batch size 1, a batching window of
  1 second, starting position \<open>"LATEST"\<close> and \<open>Enabled\<close> true.
\<close>

theorem event_source_resources:
  "\<not> hasProp (getProp (buildCloudFormationTemplate name None environment permissions) ''Resources'')
        ''LambdaTriggerPolicy''
   \<and> \<not> hasProp (getProp (buildCloudFormationTemplate name None environment permissions) ''Resources'')
        ''LambdaEventSourceMapping''
   \<and> (let resources =
          getProp (buildCloudFormationTemplate name (Some table) environment permissions) ''Resources'';
          policy = getProp resources ''LambdaTriggerPolicy'';
          mapping = getProp resources ''LambdaEventSourceMapping''
      in hasProp resources ''LambdaTriggerPolicy''
       \<and> hasProp resources ''LambdaEventSourceMapping''
       \<and> getProp policy ''DependsOn'' = JArr [JStr ''LambdaExecutionRole'']
       \<and> getProp mapping ''DependsOn'' = JArr [JStr ''LambdaTriggerPolicy'', JStr ''LambdaExecutionRole'']
       \<and> getProp (getProp mapping ''Properties'') ''BatchSize'' = JNum 1
       \<and> getProp (getProp mapping ''Properties'') ''MaximumBatchingWindowInSeconds'' = JNum 1
       \<and> getProp (getProp mapping ''Properties'') ''StartingPosition'' = JStr ''LATEST''
       \<and> getProp (getProp mapping ''Properties'') ''Enabled'' = JBool True)"
  by (simp add: buildCloudFormationTemplate_def ResourcesSection_def spread_def
        LambdaTriggerPolicy_def LambdaEventSourceMapping_def Let_def)

text \<open>
  C4. A \<open>CoalescedVariable\<close> named \<open>X\<close> produces exactly one condition, named
  \<open>"FirstNotEmpty_" + X\<close>, whose body negates the equality of the first leg's expression
  with the empty string; its variable is an \<open>Fn::If\<close> on that condition name choosing the
  first leg's expression, else the second leg's.  A leg's expression is a \<open>Ref\<close> to its
  parameter name.
\<close>

theorem coalesced_condition_and_variable:
  "EnvironmentVariableConditionProvider_toConditions (CoalescedVariable X first second) =
     [CFConditionDefinition (''FirstNotEmpty_'' @ X)
        (JObj [(''Fn::Not'', JArr [
           JObj [(''Fn::Equals'', JArr [variableValueExpressionToCfExpression first, JStr ''''])]])])]
   \<and> toVariable (CoalescedVariable X first second) =
     CFVariableDefinition X
       (JObj [(''Fn::If'', JArr [
          JStr (''FirstNotEmpty_'' @ X),
          variableValueExpressionToCfExpression first,
          variableValueExpressionToCfExpression second])])
   \<and> variableValueExpressionToCfExpression (ValueParameter p) = JObj [(''Ref'', JStr (param_name p))]
   \<and> variableValueExpressionToCfExpression (ValueReference r) =
       JObj [(''Ref'', JStr (ref_category r @ ref_resource r @ ref_output r))]"
  by (simp add: conditionNameForEnv_def ParameterExpressionProvider_toExpression_def
        ResourceOutputReferenceParameterProvider_toParameter_def)

text \<open>
  C5. The variable of a \<open>TableNameVariable\<close> is named by upper-casing
  \<open>tableName + "_table_name"\<close> (\<open>"TODO_TABLE_NAME"\<close> for \<open>"Todo"\<close>), and its value imports
  the \<open>Fn::Sub\<close> string made of the placeholder of the table's API-id parameter
  (\<open>'api' + apiName + 'GraphQLAPIIdOutput'\<close>) followed by
  \<open>":GetAtt:" + tableName + "Table:Name"\<close>.
\<close>

theorem table_name_variable:
  "var_name (toVariable (TableNameVariable table)) = toUpperCase (tableName table @ ''_table_name'')
   \<and> var_name (toVariable (TableNameVariable table)) = toUpperCase (tableName table) @ ''_TABLE_NAME''
   \<and> var_block (toVariable (TableNameVariable table)) =
       JObj [(''Fn::ImportValue'', JObj [(''Fn::Sub'',
         JStr (''${'' @ cf_name (TableParameterProvider_toParameter table) @ ''}''
               @ '':GetAtt:'' @ tableName table @ ''Table:Name''))])]
   \<and> cf_name (TableParameterProvider_toParameter table) =
       ''api'' @ apiName table @ ''GraphQLAPIIdOutput''
   \<and> toVariable (TableNameVariable (ApiTable ''myApi'' ''Todo'')) =
       CFVariableDefinition ''TODO_TABLE_NAME''
         (JObj [(''Fn::ImportValue'', JObj [(''Fn::Sub'',
            JStr ''${apimyApiGraphQLAPIIdOutput}:GetAtt:TodoTable:Name'')])])"
  by (simp add: Let_def toUpperCase_append TableParameterProvider_toParameter_def
        ResourceOutputReferenceParameterProvider_toParameter_def apiTableOutputReference_def
        subVar_def)
     (simp add: toUpperCase_def toUpperChar_def)

text \<open>
  C6. The \<open>Action\<close> list of a \<open>TablePermission\<close>'s policy statement is its \<open>actions\<close>
  list mapped element by element, \<open>ReadItem\<close> to \<open>dynamodb:GetItem\<close> and \<open>UpdateItem\<close> to
  \<open>dynamodb:UpdateItem\<close>, in the same order; \<open>[ReadItem, UpdateItem]\<close> gives
  \<open>[dynamodb:GetItem, dynamodb:UpdateItem]\<close>.
\<close>

theorem table_permission_actions:
  "getProp (toPolicyStatement (TablePermission table actions)) ''Action'' =
     JArr (map (\<lambda>a. JStr (case a of ReadItem \<Rightarrow> ''dynamodb:GetItem''
                               | UpdateItem \<Rightarrow> ''dynamodb:UpdateItem'')) actions)
   \<and> getProp (toPolicyStatement (TablePermission table [ReadItem, UpdateItem])) ''Action'' =
     JArr [JStr ''dynamodb:GetItem'', JStr ''dynamodb:UpdateItem'']"
proof -
  have "policyActionForTableAction a =
        (case a of ReadItem \<Rightarrow> ''dynamodb:GetItem'' | UpdateItem \<Rightarrow> ''dynamodb:UpdateItem'')" for a
    by (cases a) simp_all
  then show ?thesis by (simp add: Let_def)
qed

text \<open>
  C7. When the environment list holds two \<open>CoalescedVariable\<close>s of the same name \<open>X\<close>, the
  \<open>Conditions\<close> section has exactly one condition under \<open>"FirstNotEmpty_" + X\<close>, and its
  body is the one of the later variable (the last of that name in the list).
\<close>

theorem colliding_conditions_last_wins:
  assumes env: "environment = xs @ CoalescedVariable X f1 s1 # ys @ CoalescedVariable X f2 s2 # zs"
    and last: "\<forall>f s. CoalescedVariable X f s \<notin> set zs"
  shows "keyCount (getProp (buildCloudFormationTemplate name eventSource environment permissions)
            ''Conditions'') (''FirstNotEmpty_'' @ X) = 1
    \<and> getProp (getProp (buildCloudFormationTemplate name eventSource environment permissions)
            ''Conditions'') (''FirstNotEmpty_'' @ X) =
        JObj [(''Fn::Not'', JArr [
           JObj [(''Fn::Equals'', JArr [variableValueExpressionToCfExpression f2, JStr ''''])]])]"
proof -
  let ?k = "''FirstNotEmpty_'' @ X"
  let ?b2 = "JObj [(''Fn::Not'', JArr [
           JObj [(''Fn::Equals'', JArr [variableValueExpressionToCfExpression f2, JStr ''''])]])]"
  let ?cs = "conditionProps environment"
  note d = conditionProps_distinct [of environment]
  note keys = conditionProps_keys [of environment]
  note m = conditionProps_map_of [of environment]
  note doc = Conditions_of_document [of name eventSource environment permissions]
  have pairs: "conditionPairs environment =
      (conditionPairs xs @ conditionPairs (CoalescedVariable X f1 s1 # ys))
      @ (?k, ?b2) # conditionPairs zs"
    by (simp add: env conditionPairs_append conditionPairs_Cons_Coalesced)
  have "?k \<notin> fst ` set (conditionPairs zs)"
  proof
    assume "?k \<in> fst ` set (conditionPairs zs)"
    from conditionPairs_keys [OF this] obtain n f s
      where "CoalescedVariable n f s \<in> set zs" and "?k = ''FirstNotEmpty_'' @ n" by blast
    with last show False by simp
  qed
  then have none: "map_of (rev (conditionPairs zs)) ?k = None"
    by (simp add: map_of_eq_None_iff)
  have look: "map_of (rev (conditionPairs environment)) ?k = Some ?b2"
    unfolding pairs using none by (simp add: map_add_def)
  have inkeys: "?k \<in> fst ` set ?cs"
    unfolding keys pairs by (simp add: image_Un)
  have "keyCount (JObj ?cs) ?k = 1"
    using distinct_count1 [OF d inkeys] by simp
  moreover have "getProp (JObj ?cs) ?k = ?b2"
    using look by (simp add: m map_add_def)
  ultimately show ?thesis unfolding doc by simp
qed

theorem colliding_conditions_last_wins_witness:
  "keyCount (getProp (buildCloudFormationTemplate ''fn'' None
       [CoalescedVariable ''X'' (ValueParameter (Parameter ''a'' None)) (ValueParameter (Parameter ''b'' None)),
        CoalescedVariable ''X'' (ValueParameter (Parameter ''c'' None)) (ValueParameter (Parameter ''b'' None))] [])
            ''Conditions'') ''FirstNotEmpty_X'' = 1
    \<and> getProp (getProp (buildCloudFormationTemplate ''fn'' None
       [CoalescedVariable ''X'' (ValueParameter (Parameter ''a'' None)) (ValueParameter (Parameter ''b'' None)),
        CoalescedVariable ''X'' (ValueParameter (Parameter ''c'' None)) (ValueParameter (Parameter ''b'' None))] [])
            ''Conditions'') ''FirstNotEmpty_X'' =
        JObj [(''Fn::Not'', JArr [
           JObj [(''Fn::Equals'', JArr [JObj [(''Ref'', JStr ''c'')], JStr ''''])]])]"
  using colliding_conditions_last_wins
     [of "[CoalescedVariable ''X'' (ValueParameter (Parameter ''a'' None)) (ValueParameter (Parameter ''b'' None)),
        CoalescedVariable ''X'' (ValueParameter (Parameter ''c'' None)) (ValueParameter (Parameter ''b'' None))]"
      "[]" "''X''" "ValueParameter (Parameter ''a'' None)" "ValueParameter (Parameter ''b'' None)"
      "[]" "ValueParameter (Parameter ''c'' None)" "ValueParameter (Parameter ''b'' None)" "[]"
      "''fn''" None "[]"]
  by (simp add: ParameterExpressionProvider_toExpression_def)

text \<open>
  C8, as stated, fails.  A parameter named \<open>resourceName\<close> that supplies no default (here
  the identity of a \<open>SendMailPermission\<close>) is emitted with a \<open>Default\<close> field, the one of
  the fixed \<open>resourceName\<close> entry it is merged into.  And a \<open>Parameter\<close> without a default
  that shares its name with one that has a default (here the parameters of two
  \<open>ParameterVariable\<close>s named \<open>p\<close>) is emitted into an entry with that \<open>Default\<close>.
\<close>

theorem resourceName_default_counterexample:
  "hasProp (getProp (getProp
      (jsonValue (buildCloudFormationTemplate ''fn'' None []
         [SendMailPermission (Parameter ''resourceName'' None)]))
      ''Parameters'') ''resourceName'') ''Default''
   \<and> parameters None [] [SendMailPermission (Parameter ''resourceName'' None)] =
       [CFParameter ''resourceName'' None]
   \<and> hasProp (getProp (getProp
      (jsonValue (buildCloudFormationTemplate ''fn'' None
         [ParameterVariable ''A'' (Parameter ''p'' (Some ''x'')),
          ParameterVariable ''B'' (Parameter ''p'' None)] []))
      ''Parameters'') ''p'') ''Default''"
proof -
  have ps: "parameters None [] [SendMailPermission (Parameter ''resourceName'' None)] =
       [CFParameter ''resourceName'' None]"
    by (simp add: parameters_eq parameterObjects_def flatten_def sourceTableParameter_def)
  have qs: "parameters None
         [ParameterVariable ''A'' (Parameter ''p'' (Some ''x'')),
          ParameterVariable ''B'' (Parameter ''p'' None)] [] =
       [CFParameter ''p'' (Some ''x''), CFParameter ''p'' None]"
    by (simp add: parameters_eq parameterObjects_def flatten_def sourceTableParameter_def)
  have a: "mergedDefault ''fn'' ''resourceName'' [CFParameter ''resourceName'' None] = JStr ''fn''"
    by (simp add: mergedDefault_def suppliedDefaults_def)
  have b: "mergedDefault ''fn'' ''p'' [CFParameter ''p'' (Some ''x''), CFParameter ''p'' None] =
      JStr ''x''"
    by (simp add: mergedDefault_def suppliedDefaults_def)
  have "hasProp (getProp (getProp
      (jsonValue (buildCloudFormationTemplate ''fn'' None []
         [SendMailPermission (Parameter ''resourceName'' None)]))
      ''Parameters'') ''resourceName'') ''Default''"
    using a parameter_entry_json
      [of "''fn''" "[CFParameter ''resourceName'' None]" "''resourceName''"]
    by (simp add: serialised_entry ps)
  moreover have "hasProp (getProp (getProp
      (jsonValue (buildCloudFormationTemplate ''fn'' None
         [ParameterVariable ''A'' (Parameter ''p'' (Some ''x'')),
          ParameterVariable ''B'' (Parameter ''p'' None)] []))
      ''Parameters'') ''p'') ''Default''"
    using b parameter_entry_json
      [of "''fn''" "[CFParameter ''p'' (Some ''x''), CFParameter ''p'' None]" "''p''"]
    by (simp add: serialised_entry qs)
  ultimately show ?thesis using ps by simp
qed

text \<open>
  C8, amended.  Under every name \<open>n\<close> other than \<open>__proto__\<close>, the \<open>Default\<close> of the entry
  in the \<open>Parameters\<close> section is the default value supplied by the last \<open>Parameter\<close> of
  the function definition named \<open>n\<close> that supplies one (the identity of a
  \<open>SendMailPermission\<close>, the parameter of a \<open>ParameterVariable\<close>, a \<open>Parameter\<close> leg of a
  \<open>CoalescedVariable\<close>); when none does it is \<open>undefined\<close>, except under \<open>resourceName\<close>,
  where it is the function's name.  The serialised entry therefore has a \<open>Default\<close>
  field exactly when the name is \<open>resourceName\<close> or some \<open>Parameter\<close> of the definition
  of that name supplied a default, and then with the same value; an \<open>undefined\<close> default
  is left out, not written as the empty string.  No entry is emitted under \<open>__proto__\<close>.
\<close>

theorem parameter_default_merged:
  "getProp (getProp (getProp
      (buildCloudFormationTemplate name eventSource environment permissions)
      ''Parameters'') n) ''Default'' =
     (if n = ''__proto__'' then JUndefined
      else if declaredDefaults n (declaredParameters environment permissions) = []
      then (if n = ''resourceName'' then JStr name else JUndefined)
      else JStr (last (declaredDefaults n (declaredParameters environment permissions))))
   \<and> hasProp (getProp (getProp
      (jsonValue (buildCloudFormationTemplate name eventSource environment permissions))
      ''Parameters'') n) ''Default'' =
     (n \<noteq> ''__proto__'' \<and>
      (n = ''resourceName'' \<or>
       (\<exists>p \<in> set (declaredParameters environment permissions).
          param_name p = n \<and> param_defaultValue p \<noteq> None)))
   \<and> getProp (getProp (getProp
      (jsonValue (buildCloudFormationTemplate name eventSource environment permissions))
      ''Parameters'') n) ''Default'' =
     getProp (getProp (getProp
      (buildCloudFormationTemplate name eventSource environment permissions)
      ''Parameters'') n) ''Default''
   \<and> \<not> hasProp
      (getProp (buildCloudFormationTemplate name eventSource environment permissions)
         ''Parameters'') ''__proto__''"
proof -
  let ?ps = "parameters eventSource environment permissions"
  let ?ds = "declaredDefaults n (declaredParameters environment permissions)"
  have md: "mergedDefault name n ?ps =
      (if ?ds = [] then (if n = ''resourceName'' then JStr name else JUndefined)
       else JStr (last ?ds))"
    by (simp add: mergedDefault_def collected_defaults)
  have raw: "getProp (getProp (getProp
      (buildCloudFormationTemplate name eventSource environment permissions)
      ''Parameters'') n) ''Default'' =
      (if n = ''__proto__'' then JUndefined else mergedDefault name n ?ps)"
    by (simp only: Parameters_of_document parameter_entry_raw)
  have ser: "hasProp (getProp (getProp
      (jsonValue (buildCloudFormationTemplate name eventSource environment permissions))
      ''Parameters'') n) ''Default'' =
      (n \<noteq> ''__proto__'' \<and> mergedDefault name n ?ps \<noteq> JUndefined)"
    using parameter_entry_json [of name ?ps n] by (simp add: serialised_entry)
  have val: "getProp (getProp (getProp
      (jsonValue (buildCloudFormationTemplate name eventSource environment permissions))
      ''Parameters'') n) ''Default'' =
      (if n = ''__proto__'' then JUndefined else mergedDefault name n ?ps)"
    using parameter_entry_json [of name ?ps n] by (simp add: serialised_entry)
  have some: "(mergedDefault name n ?ps \<noteq> JUndefined) =
     (n = ''resourceName'' \<or>
      (\<exists>p \<in> set (declaredParameters environment permissions).
          param_name p = n \<and> param_defaultValue p \<noteq> None))"
    using declaredDefaults_nonempty [of n "declaredParameters environment permissions"]
    by (auto simp: md)
  have proto: "\<not> hasProp
      (getProp (buildCloudFormationTemplate name eventSource environment permissions)
         ''Parameters'') ''__proto__''"
    by (simp add: Parameters_of_document parameterProps_map_of)
  have first: "getProp (getProp (getProp
      (buildCloudFormationTemplate name eventSource environment permissions)
      ''Parameters'') n) ''Default'' =
     (if n = ''__proto__'' then JUndefined
      else if ?ds = [] then (if n = ''resourceName'' then JStr name else JUndefined)
      else JStr (last ?ds))"
    unfolding raw md by simp
  from first ser some val raw proto show ?thesis by simp
qed

theorem parameter_default_merged_witness:
  "getProp (getProp (getProp
      (buildCloudFormationTemplate ''fn'' None
         [ParameterVariable ''FROM'' (Parameter ''sender'' None)]
         [SendMailPermission (Parameter ''sender'' (Some ''a@b.c''))])
      ''Parameters'') ''sender'') ''Default'' = JStr ''a@b.c''
   \<and> hasProp (getProp (getProp
      (jsonValue (buildCloudFormationTemplate ''fn'' None
         [ParameterVariable ''FROM'' (Parameter ''sender'' None)]
         [SendMailPermission (Parameter ''sender'' (Some ''a@b.c''))]))
      ''Parameters'') ''sender'') ''Default''"
  using parameter_default_merged
      [of "''fn''" None "[ParameterVariable ''FROM'' (Parameter ''sender'' None)]"
          "[SendMailPermission (Parameter ''sender'' (Some ''a@b.c''))]" "''sender''"]
  by (simp add: declaredParameters_def declaredDefaults_def)

text \<open>
  C9. With an event source, the trigger policy's document has a single statement, and its
  \<open>Resource\<close> equals the \<open>EventSourceArn\<close> of the event-source mapping: both are the
  stream-ARN import expression of the event-source table.
\<close>

theorem trigger_policy_resource_is_event_source_arn:
  "(let resources =
          getProp (buildCloudFormationTemplate name (Some table) environment permissions) ''Resources'';
        statements = getProp (getProp (getProp (getProp resources ''LambdaTriggerPolicy'')
                        ''Properties'') ''PolicyDocument'') ''Statement'';
        mapping = getProp resources ''LambdaEventSourceMapping''
    in (\<exists>statement. statements = JArr [statement])
     \<and> getProp (getIndex statements 0) ''Resource'' =
         getProp (getProp mapping ''Properties'') ''EventSourceArn''
     \<and> getProp (getIndex statements 0) ''Resource'' = toStreamArnExpression table
     \<and> toStreamArnExpression table =
         JObj [(''Fn::ImportValue'', JObj [(''Fn::Sub'',
           JStr (''${api'' @ apiName table @ ''GraphQLAPIIdOutput}:GetAtt:'' @ tableName table
                 @ ''Table:StreamArn''))])])"
  by (simp add: buildCloudFormationTemplate_def ResourcesSection_def spread_def
        LambdaTriggerPolicy_def LambdaEventSourceMapping_def Let_def
        toStreamArnExpression_def TableParameterProvider_toParameter_def
        ResourceOutputReferenceParameterProvider_toParameter_def apiTableOutputReference_def
        subVar_def)

text \<open>
  C10. The \<open>Conditions\<close> section always holds \<open>ShouldNotCreateEnvResources\<close>, the test
  that the \<open>env\<close> parameter equals \<open>"NONE"\<close>; every other key is \<open>"FirstNotEmpty_" + n\<close>
  for a \<open>CoalescedVariable\<close> named \<open>n\<close> of the environment list; and no permission
  contributes a condition.
\<close>

theorem conditions_keys:
  "getProp (getProp (buildCloudFormationTemplate name eventSource environment permissions)
      ''Conditions'') ''ShouldNotCreateEnvResources'' =
     JObj [(''Fn::Equals'', JArr [JObj [(''Ref'', JStr ''env'')], JStr ''NONE''])]
   \<and> (\<forall>k \<in> set (keysOf (getProp
          (buildCloudFormationTemplate name eventSource environment permissions) ''Conditions'')).
        k = ''ShouldNotCreateEnvResources'' \<or>
        (\<exists>n f s. CoalescedVariable n f s \<in> set environment \<and> k = ''FirstNotEmpty_'' @ n))
   \<and> PermissionConditionProvider_toConditions p = []"
proof -
  let ?cs = "conditionProps environment"
  note keys = conditionProps_keys [of environment]
  note m = conditionProps_map_of [of environment]
  note doc = Conditions_of_document [of name eventSource environment permissions]
  have "''ShouldNotCreateEnvResources'' \<notin> fst ` set (conditionPairs environment)"
    using conditionPairs_keys [of "''ShouldNotCreateEnvResources''" environment] by auto
  then have "map_of (rev (conditionPairs environment)) ''ShouldNotCreateEnvResources'' = None"
    by (simp add: map_of_eq_None_iff)
  then have a: "getProp (JObj ?cs) ''ShouldNotCreateEnvResources'' =
     JObj [(''Fn::Equals'', JArr [JObj [(''Ref'', JStr ''env'')], JStr ''NONE''])]"
    by (simp add: m map_add_def)
  have b: "k = ''ShouldNotCreateEnvResources'' \<or>
        (\<exists>n f s. CoalescedVariable n f s \<in> set environment \<and> k = ''FirstNotEmpty_'' @ n)"
    if "k \<in> set (keysOf (JObj ?cs))" for k
  proof -
    from that have "k \<in> fst ` set ?cs" by simp
    with keys have "k = ''ShouldNotCreateEnvResources'' \<or> k \<in> fst ` set (conditionPairs environment)"
      by auto
    with conditionPairs_keys show ?thesis by blast
  qed
  show ?thesis
    unfolding doc using a b by (simp add: PermissionConditionProvider_toConditions_def)
qed

theorem conditions_keys_witness:
  "''FirstNotEmpty_X'' \<in> set (keysOf (getProp
      (buildCloudFormationTemplate ''fn'' None
         [CoalescedVariable ''X'' (ValueParameter (Parameter ''a'' None))
            (ValueParameter (Parameter ''b'' None))]
         [SendMailPermission (Parameter ''from'' None)]) ''Conditions''))
   \<and> (\<exists>n f s. CoalescedVariable n f s \<in>
         set [CoalescedVariable ''X'' (ValueParameter (Parameter ''a'' None))
                (ValueParameter (Parameter ''b'' None))]
       \<and> ''FirstNotEmpty_X'' = ''FirstNotEmpty_'' @ n)"
proof -
  let ?env = "[CoalescedVariable ''X'' (ValueParameter (Parameter ''a'' None))
            (ValueParameter (Parameter ''b'' None))]"
  let ?perms = "[SendMailPermission (Parameter ''from'' None)]"
  have mem: "''FirstNotEmpty_X'' \<in> set (keysOf (getProp
      (buildCloudFormationTemplate ''fn'' None ?env ?perms) ''Conditions''))"
    by (simp add: Conditions_of_document conditionProps_def conditionPairs_def spread_def
          fromPairs_def conditionNameForEnv_def)
  note all = conditions_keys [of "''fn''" None ?env ?perms "SendMailPermission (Parameter ''from'' None)",
      THEN conjunct2, THEN conjunct1]
  from bspec [OF all mem] have "\<exists>n f s. CoalescedVariable n f s \<in> set ?env
       \<and> ''FirstNotEmpty_X'' = ''FirstNotEmpty_'' @ n"
    by simp
  with mem show ?thesis by simp
qed

end
